theory Spec2Isabelle
  imports Main "HOL-Library.Word"
begin

section \<open>Configuration (main.go)\<close>

text \<open>
  The \<^verbatim>\<open>Config\<close> struct of main.go. \<^verbatim>\<open>ConnectionTimeout\<close> is a Go
  \<^verbatim>\<open>int\<close> holding a number of seconds.
\<close>

record Config =
  ListenAddr :: string
  Server :: "string list"
  ConnectionTimeout :: int

definition DefaultListenAddr :: string where
  "DefaultListenAddr = ''localhost:8080''"

definition DefaultServers :: "string list" where
  "DefaultServers = [''localhost:5001'', ''localhost:5002'', ''localhost:5003'']"

definition DefaultConnectionTimeout :: int where
  "DefaultConnectionTimeout = 60"

definition ConfigFile :: string where
  "ConfigFile = ''config.json''"

text \<open>
  \<^verbatim>\<open>loadConfig\<close>. The file system and the JSON decoder belong to Go's standard
  library, so both are parameters: \<open>os_open filename\<close> is the result of
  \<^verbatim>\<open>os.Open\<close> (\<open>Inl\<close> the error), and \<open>decode file config\<close> is the result of
  \<^verbatim>\<open>json.NewDecoder(file).Decode(config)\<close> on a \<^verbatim>\<open>config\<close> that already
  holds the defaults (\<open>Inl\<close> the error, \<open>Inr\<close> the struct as the decoder leaves it).
  The only error \<^verbatim>\<open>loadConfig\<close> returns wraps the decoder's error.
\<close>

datatype 'de config_error = FailedToDecode 'de

definition loadConfig ::
  "(string \<Rightarrow> 'oe + 'f) \<Rightarrow> ('f \<Rightarrow> Config \<Rightarrow> 'de + Config) \<Rightarrow> string
     \<Rightarrow> 'de config_error + Config" where
  "loadConfig os_open decode filename =
     (case os_open filename of
        Inl err \<Rightarrow>
          Inr \<lparr>ListenAddr = DefaultListenAddr,
               Server = [] @ DefaultServers,
               ConnectionTimeout = DefaultConnectionTimeout\<rparr>
      | Inr file \<Rightarrow>
          (let config = \<lparr>ListenAddr = DefaultListenAddr,
                          Server = [] @ DefaultServers,
                          ConnectionTimeout = DefaultConnectionTimeout\<rparr>
           in case decode file config of
                Inl err \<Rightarrow> Inl (FailedToDecode err)
              | Inr config' \<Rightarrow> Inr config'))"

section \<open>Backend selection (main.go)\<close>

text \<open>
  \<^verbatim>\<open>chooseBackend\<close> seeds the process-wide generator with the clock and draws an
  index. The clock reading \<open>now\<close> (\<^verbatim>\<open>time.Now().UnixNano()\<close>, an int64) is an
  input, and the generator of \<^verbatim>\<open>math/rand\<close> is a parameter: \<open>intn seed n\<close> is
  what \<^verbatim>\<open>rand.Seed(seed); rand.Intn(n)\<close> yields for \<open>0 < n\<close>. For \<open>n = 0\<close>
  \<^verbatim>\<open>rand.Intn\<close> panics, and an index outside the slice panics as well; both are
  results of the model.
\<close>

datatype panic = IntnInvalidArgument | IndexOutOfRange nat nat

definition chooseBackend ::
  "(64 word \<Rightarrow> nat \<Rightarrow> nat) \<Rightarrow> 64 word \<Rightarrow> string list \<Rightarrow> panic + string" where
  "chooseBackend intn now servers =
     (let n = length servers in
      if n = 0 then Inl IntnInvalidArgument
      else (let i = intn now n in
            if i < n then Inr (servers ! i) else Inl (IndexOutOfRange i n)))"

text \<open>
  The contract of \<^verbatim>\<open>rand.Intn\<close>: the result lies in \<open>[0, n)\<close>.
\<close>

definition intn_in_range :: "(64 word \<Rightarrow> nat \<Rightarrow> nat) \<Rightarrow> nat \<Rightarrow> bool" where
  "intn_in_range intn n = (\<forall>seed. intn seed n < n)"

text \<open>
  Every index below \<open>n\<close> is drawn for some seed.
\<close>

definition intn_reaches_all :: "(64 word \<Rightarrow> nat \<Rightarrow> nat) \<Rightarrow> nat \<Rightarrow> bool" where
  "intn_reaches_all intn n = (\<forall>i<n. \<exists>seed. intn seed n = i)"

text \<open>
  A concrete generator that meets both, used to instantiate the theorems: the seed
  reduced modulo the bound.
\<close>

definition seed_mod :: "64 word \<Rightarrow> nat \<Rightarrow> nat" where
  "seed_mod seed n = unat seed mod n"

section \<open>The relay (main.go, \<^verbatim>\<open>proxy\<close>)\<close>

text \<open>
  Connections are handles. Errors of the network library are values.
\<close>

type_synonym conn = nat

datatype net_error = ErrClosed | ErrTimeout | ErrRefused | ErrUnreachable | ErrOther string

text \<open>
  \<^verbatim>\<open>time.Duration\<close> is an int64 counting nanoseconds.
\<close>

definition Second :: "64 word" where
  "Second = 1000000000"

datatype copy_dir = ClientToBackend | BackendToClient

text \<open>
  The error \<^verbatim>\<open>proxy\<close> returns:
  \<^verbatim>\<open>fmt.Errorf("failed to connect to backend %s: %v", backend, err)\<close>.
\<close>

datatype proxy_error = FailedToConnect string net_error

text \<open>
  Lines written by \<^verbatim>\<open>log\<close> and \<^verbatim>\<open>fmt.Printf\<close>, in the order they are written.
\<close>

datatype out_line =
    ListeningOn string
  | ReadyToAccept
  | FailedToAccept net_error
  | Handling conn string
  | FailedToProxy proxy_error
  | ShuttingDown
  | TimeoutShuttingDown
  | FailedToCopy copy_dir net_error
  | ConnectionClosed conn string

text \<open>
  Calls into the network library that a relay makes, in order:
  \<^verbatim>\<open>net.DialTimeout(network, address, timeout)\<close>, \<^verbatim>\<open>net.Dial(network, address)\<close>
  (the earlier variant only) and \<^verbatim>\<open>Close\<close> on a connection.
\<close>

datatype net_call = DialTimeout string string "64 word" | Dial string string | CloseConn conn

text \<open>
  \<^verbatim>\<open>proxy\<close> runs in a goroutine of its own and starts two more, one per copy
  direction, so it is a transition system driven by what the environment delivers:
  the dial returns, a copy task forwards some bytes, a copy task's \<^verbatim>\<open>io.Copy\<close>
  returns. \<open>AtDial\<close> is the call of \<^verbatim>\<open>net.DialTimeout\<close>, \<open>AtWait\<close> is
  \<^verbatim>\<open>wg.Wait()\<close>, \<open>Returned\<close> holds the returned error (\<open>None\<close> is nil).
\<close>

datatype relay_pc = AtDial | AtWait | Returned "proxy_error option"

datatype relay_event =
    DialReturned "net_error + conn"
  | Forwarded copy_dir nat
  | CopyReturned copy_dir "net_error option"

record relay =
  r_backend :: string
  r_client :: conn
  r_pc :: relay_pc
  r_bc :: "conn option"
  client_open :: bool
  backend_open :: bool
  r_wg :: nat
  c2b_running :: bool
  b2c_running :: bool
  c2b_bytes :: nat
  b2c_bytes :: nat
  r_calls :: "net_call list"
  r_out :: "out_line list"

text \<open>
  Entry of \<^verbatim>\<open>proxy(backend, c)\<close>: the client connection is open, nothing has been
  dialled or copied.
\<close>

definition proxy_init :: "string \<Rightarrow> conn \<Rightarrow> relay" where
  "proxy_init backend c =
     \<lparr>r_backend = backend, r_client = c, r_pc = AtDial, r_bc = None,
      client_open = True, backend_open = False, r_wg = 0,
      c2b_running = False, b2c_running = False, c2b_bytes = 0, b2c_bytes = 0,
      r_calls = [], r_out = []\<rparr>"

definition running :: "copy_dir \<Rightarrow> relay \<Rightarrow> bool" where
  "running d r = (case d of ClientToBackend \<Rightarrow> c2b_running r | BackendToClient \<Rightarrow> b2c_running r)"

text \<open>
  The tail of \<^verbatim>\<open>proxy\<close> once \<^verbatim>\<open>wg.Wait()\<close> has returned: the closing line is
  printed, nil is returned, and the deferred calls run in reverse order of their
  \<^verbatim>\<open>defer\<close>: \<^verbatim>\<open>bc.Close()\<close>, then \<^verbatim>\<open>c.Close()\<close>.
\<close>

definition proxy_finish :: "relay \<Rightarrow> relay" where
  "proxy_finish r =
     r\<lparr>r_out := r_out r @ [ConnectionClosed (r_client r) (r_backend r)],
       r_pc := Returned None,
       backend_open := False,
       client_open := False,
       r_calls := r_calls r @ (case r_bc r of None \<Rightarrow> [] | Some b \<Rightarrow> [CloseConn b])
                    @ [CloseConn (r_client r)]\<rparr>"

text \<open>
  One copy goroutine ends: its error, if any, is logged, and the deferred
  \<^verbatim>\<open>wg.Done()\<close> decrements the counter. \<^verbatim>\<open>wg.Wait()\<close> in \<^verbatim>\<open>proxy\<close> returns
  when the counter reaches zero.
\<close>

definition copy_done :: "copy_dir \<Rightarrow> net_error option \<Rightarrow> relay \<Rightarrow> relay" where
  "copy_done d err r =
     (let r1 = (case err of None \<Rightarrow> r | Some e \<Rightarrow> r\<lparr>r_out := r_out r @ [FailedToCopy d e]\<rparr>);
          r2 = (case d of ClientToBackend \<Rightarrow> r1\<lparr>c2b_running := False\<rparr>
                        | BackendToClient \<Rightarrow> r1\<lparr>b2c_running := False\<rparr>);
          r3 = r2\<lparr>r_wg := r_wg r2 - 1\<rparr>
      in if r_wg r3 = 0 then proxy_finish r3 else r3)"

fun proxy_step :: "relay_event \<Rightarrow> relay \<Rightarrow> relay" where
  "proxy_step (DialReturned res) r =
     (if r_pc r \<noteq> AtDial then r
      else (let r1 = r\<lparr>r_calls := r_calls r @ [DialTimeout ''tcp'' (r_backend r) (Second * 5)]\<rparr>
            in case res of
                 Inl err \<Rightarrow>
                   r1\<lparr>r_pc := Returned (Some (FailedToConnect (r_backend r) err)),
                      client_open := False,
                      r_calls := r_calls r1 @ [CloseConn (r_client r)]\<rparr>
               | Inr b \<Rightarrow>
                   r1\<lparr>r_pc := AtWait, r_bc := Some b, backend_open := True, r_wg := 2,
                      c2b_running := True, b2c_running := True\<rparr>))"
| "proxy_step (Forwarded d n) r =
     (if running d r
      then (case d of ClientToBackend \<Rightarrow> r\<lparr>c2b_bytes := c2b_bytes r + n\<rparr>
                    | BackendToClient \<Rightarrow> r\<lparr>b2c_bytes := b2c_bytes r + n\<rparr>)
      else r)"
| "proxy_step (CopyReturned d err) r =
     (if running d r then copy_done d err r else r)"

text \<open>
  A run of the relay: the events are taken in order.
\<close>

fun proxy_run :: "relay_event list \<Rightarrow> relay \<Rightarrow> relay" where
  "proxy_run [] r = r"
| "proxy_run (e # es) r = proxy_run es (proxy_step e r)"

text \<open>
  Has \<^verbatim>\<open>io.Copy\<close> of direction \<open>d\<close> returned in this list of events?
\<close>

fun returns :: "copy_dir \<Rightarrow> relay_event \<Rightarrow> bool" where
  "returns d (CopyReturned d' err) = (d = d')"
| "returns d e = False"

fun copy_returned :: "copy_dir \<Rightarrow> relay_event list \<Rightarrow> bool" where
  "copy_returned d [] = False"
| "copy_returned d (e # es) = (returns d e \<or> copy_returned d es)"

text \<open>
  What holds of a relay at each point of \<^verbatim>\<open>proxy\<close>: before the dial only the
  client is open and nothing has been copied; while \<^verbatim>\<open>proxy\<close> waits both
  connections are open, a copy task is still running and the counter is the number
  of running copy tasks; once \<^verbatim>\<open>proxy\<close> has returned both connections are closed
  and no copy task runs, and if it returned an error no byte was forwarded.
\<close>

definition relay_inv :: "relay \<Rightarrow> bool" where
  "relay_inv r =
     (case r_pc r of
        AtDial \<Rightarrow> client_open r \<and> \<not> backend_open r \<and> \<not> c2b_running r \<and> \<not> b2c_running r
                  \<and> c2b_bytes r = 0 \<and> b2c_bytes r = 0
      | AtWait \<Rightarrow> client_open r \<and> backend_open r \<and> (c2b_running r \<or> b2c_running r)
                  \<and> r_wg r = (if c2b_running r then 1 else 0) + (if b2c_running r then 1 else 0)
      | Returned None \<Rightarrow> \<not> client_open r \<and> \<not> backend_open r \<and> \<not> c2b_running r \<and> \<not> b2c_running r
      | Returned (Some e) \<Rightarrow> \<not> client_open r \<and> \<not> backend_open r \<and> \<not> c2b_running r
                  \<and> \<not> b2c_running r \<and> c2b_bytes r = 0 \<and> b2c_bytes r = 0)"

text \<open>
  The calls a relay has made when it stands at each point of \<^verbatim>\<open>proxy\<close>.
\<close>

definition expected_calls :: "relay \<Rightarrow> net_call list" where
  "expected_calls r =
     (case r_pc r of
        AtDial \<Rightarrow> []
      | AtWait \<Rightarrow> [DialTimeout ''tcp'' (r_backend r) 5000000000]
      | Returned None \<Rightarrow>
          DialTimeout ''tcp'' (r_backend r) 5000000000
            # (case r_bc r of None \<Rightarrow> [] | Some b \<Rightarrow> [CloseConn b]) @ [CloseConn (r_client r)]
      | Returned (Some e) \<Rightarrow>
          [DialTimeout ''tcp'' (r_backend r) 5000000000, CloseConn (r_client r)])"

section \<open>The listener loop (main.go, \<^verbatim>\<open>main\<close>)\<close>

datatype signal = Interrupt | SIGTERM

text \<open>
  Where the main goroutine stands: \<open>AtAccept\<close> is \<^verbatim>\<open>listener.Accept()\<close> inside
  \<^verbatim>\<open>for { ... }\<close>, \<open>AtSelect\<close> is the \<^verbatim>\<open>select\<close> written after the loop,
  \<open>Draining\<close> is the deferred \<^verbatim>\<open>wg.Wait()\<close> that runs when \<^verbatim>\<open>main\<close>
  returns, and \<open>Exited\<close> is the end of the process after the deferred
  \<^verbatim>\<open>listener.Close()\<close>. A panic in \<^verbatim>\<open>main\<close> runs the same deferred calls
  while it unwinds: \<open>Unwinding\<close> is the deferred \<^verbatim>\<open>wg.Wait()\<close> of a panicking
  \<^verbatim>\<open>main\<close>, and \<open>Panicked\<close> is the crash of the process that follows the
  deferred \<^verbatim>\<open>listener.Close()\<close>.
\<close>

datatype main_pc = AtAccept | AtSelect | Draining | Exited | Unwinding panic | Panicked panic

text \<open>
  What the environment delivers: \<^verbatim>\<open>Accept\<close> returns an error, or a connection
  (with the clock reading that \<^verbatim>\<open>chooseBackend\<close> then takes); a signal registered
  with \<^verbatim>\<open>signal.Notify\<close> arrives; the timer fires; the relay goroutine started for
  the \<open>i\<close>-th accepted connection takes a step.
\<close>

datatype main_event =
    AcceptFailed net_error
  | Accepted conn "64 word"
  | SignalDelivered signal
  | TimerFired
  | RelayEvent nat relay_event

text \<open>
  \<open>sig_chan\<close> is the channel \<^verbatim>\<open>sig\<close> (capacity 1), \<open>timer_chan\<close> the timer's
  channel (capacity 1, here full or empty), \<open>timer_stopped\<close> says that
  \<^verbatim>\<open>timeoutTimer.Stop()\<close> has run, \<open>m_wg\<close> is the counter of the
  \<^verbatim>\<open>WaitGroup\<close> of \<^verbatim>\<open>main\<close>, \<open>relays\<close> the goroutines started so far.
\<close>

record main_state =
  m_pc :: main_pc
  listener_open :: bool
  sig_chan :: "signal list"
  timer_chan :: bool
  timer_stopped :: bool
  timer_duration :: "64 word"
  m_wg :: nat
  relays :: "relay list"
  m_out :: "out_line list"

text \<open>
  \<^verbatim>\<open>time.Second * time.Duration(config.ConnectionTimeout)\<close>, in int64 arithmetic.
\<close>

definition timer_of :: "Config \<Rightarrow> 64 word" where
  "timer_of config = Second * word_of_int (ConnectionTimeout config)"

text \<open>
  The state on entry to the loop, once \<^verbatim>\<open>loadConfig\<close> and \<^verbatim>\<open>net.Listen\<close> have
  succeeded (either failure ends the process in \<^verbatim>\<open>log.Fatalf\<close> before the loop).
\<close>

definition main_init :: "Config \<Rightarrow> main_state" where
  "main_init config =
     \<lparr>m_pc = AtAccept, listener_open = True, sig_chan = [], timer_chan = False,
      timer_stopped = False, timer_duration = timer_of config, m_wg = 0, relays = [],
      m_out = [ListeningOn (ListenAddr config), ReadyToAccept]\<rparr>"

definition alive :: "main_state \<Rightarrow> bool" where
  "alive s = (case m_pc s of Exited \<Rightarrow> False | Panicked p \<Rightarrow> False | _ \<Rightarrow> True)"

definition is_returned :: "relay \<Rightarrow> bool" where
  "is_returned r = (case r_pc r of Returned e \<Rightarrow> True | _ \<Rightarrow> False)"

text \<open>
  The deferred calls of \<^verbatim>\<open>main\<close>, last deferred first, as they run when
  \<^verbatim>\<open>main\<close> returns and as they run while a panic unwinds it:
  \<^verbatim>\<open>timeoutTimer.Stop()\<close>, then \<^verbatim>\<open>wg.Wait()\<close>, which blocks until every relay
  goroutine is done, then \<^verbatim>\<open>listener.Close()\<close>, after which the process ends
  (with the panic, if there is one). \<open>leave_main\<close> is the first of them,
  \<open>drain_step\<close> the other two.
\<close>

definition drain_step :: "main_state \<Rightarrow> main_state" where
  "drain_step s =
     (if m_wg s = 0
      then (case m_pc s of
              Draining \<Rightarrow> s\<lparr>listener_open := False, m_pc := Exited\<rparr>
            | Unwinding p \<Rightarrow> s\<lparr>listener_open := False, m_pc := Panicked p\<rparr>
            | _ \<Rightarrow> s)
      else s)"

definition leave_main :: "panic option \<Rightarrow> main_state \<Rightarrow> main_state" where
  "leave_main p s =
     drain_step (s\<lparr>timer_stopped := True,
                   m_pc := (case p of None \<Rightarrow> Draining | Some q \<Rightarrow> Unwinding q)\<rparr>)"

text \<open>
  The \<^verbatim>\<open>select\<close> after the loop: a signal or a timer tick is received, the line is
  logged and \<^verbatim>\<open>main\<close> returns.
\<close>

definition select_step :: "main_state \<Rightarrow> main_state" where
  "select_step s =
     (if m_pc s = AtSelect
      then (case sig_chan s of
              sg # rest \<Rightarrow>
                leave_main None (s\<lparr>sig_chan := rest, m_out := m_out s @ [ShuttingDown]\<rparr>)
            | [] \<Rightarrow>
                if timer_chan s
                then leave_main None (s\<lparr>timer_chan := False,
                                        m_out := m_out s @ [TimeoutShuttingDown]\<rparr>)
                else s)
      else s)"

text \<open>
  The goroutine that \<^verbatim>\<open>main\<close> starts per connection, after \<^verbatim>\<open>proxy\<close> returned
  \<open>res\<close>: a non-nil error is logged, the deferred \<^verbatim>\<open>wg.Done()\<close> runs.
\<close>

definition goroutine_done :: "proxy_error option \<Rightarrow> main_state \<Rightarrow> main_state" where
  "goroutine_done res s =
     (let s1 = (case res of None \<Rightarrow> s | Some err \<Rightarrow> s\<lparr>m_out := m_out s @ [FailedToProxy err]\<rparr>)
      in s1\<lparr>m_wg := m_wg s1 - 1\<rparr>)"

text \<open>
  One step of the process. The body of \<^verbatim>\<open>for { ... }\<close> has no \<^verbatim>\<open>break\<close> and no
  \<^verbatim>\<open>return\<close>: after an accept error it logs and continues, after a connection it
  picks a backend, starts the goroutine and resets the timer, and in both cases it
  is back at \<^verbatim>\<open>Accept\<close>. A panic of \<^verbatim>\<open>chooseBackend\<close>, which runs on the
  main goroutine, unwinds \<^verbatim>\<open>main\<close> through its deferred calls. A signal is
  stored in \<^verbatim>\<open>sig\<close> if the channel has room and dropped otherwise; a tick of
  the timer, unless it has been stopped, fills the timer's channel.
\<close>

fun main_step :: "(64 word \<Rightarrow> nat \<Rightarrow> nat) \<Rightarrow> Config \<Rightarrow> main_event \<Rightarrow> main_state \<Rightarrow> main_state" where
  "main_step intn config (AcceptFailed err) s =
     (if m_pc s = AtAccept then s\<lparr>m_out := m_out s @ [FailedToAccept err]\<rparr> else s)"
| "main_step intn config (Accepted c now) s =
     (if m_pc s = AtAccept
      then (case chooseBackend intn now (Server config) of
              Inl p \<Rightarrow> leave_main (Some p) s
            | Inr backend \<Rightarrow>
                s\<lparr>m_wg := m_wg s + 1,
                  m_out := m_out s @ [Handling c backend],
                  relays := relays s @ [proxy_init backend c],
                  timer_duration := timer_of config\<rparr>)
      else s)"
| "main_step intn config (SignalDelivered sg) s =
     (if alive s
      then select_step (if sig_chan s = [] then s\<lparr>sig_chan := [sg]\<rparr> else s)
      else s)"
| "main_step intn config TimerFired s =
     (if alive s \<and> \<not> timer_stopped s then select_step (s\<lparr>timer_chan := True\<rparr>) else s)"
| "main_step intn config (RelayEvent i e) s =
     (if alive s \<and> i < length (relays s)
      then (let r = relays s ! i;
                r' = proxy_step e r;
                s1 = s\<lparr>relays := (relays s)[i := r']\<rparr>
            in case r_pc r' of
                 Returned res \<Rightarrow>
                   if is_returned r then s1 else drain_step (goroutine_done res s1)
               | _ \<Rightarrow> s1)
      else s)"

fun main_run :: "(64 word \<Rightarrow> nat \<Rightarrow> nat) \<Rightarrow> Config \<Rightarrow> main_event list \<Rightarrow> main_state \<Rightarrow> main_state" where
  "main_run intn config [] s = s"
| "main_run intn config (e # es) s = main_run intn config es (main_step intn config e s)"

definition defaultConfig :: Config where
  "defaultConfig =
     \<lparr>ListenAddr = DefaultListenAddr, Server = DefaultServers,
      ConnectionTimeout = DefaultConnectionTimeout\<rparr>"

text \<open>
  The main goroutine is at \<^verbatim>\<open>Accept\<close> inside \<^verbatim>\<open>for { ... }\<close> and its listener
  is open.
\<close>

definition in_loop :: "main_state \<Rightarrow> bool" where
  "in_loop s = (listener_open s \<and> m_pc s = AtAccept)"



section \<open>The earlier variant (unnamed part_000)\<close>

text \<open>
  The second program of the repository has no configuration, no timeout and no
  shutdown handling. Its functions carry the suffix \<open>_v0\<close> here.
\<close>

definition listenAddr :: string where
  "listenAddr = ''localhost:8080''"

definition server :: "string list" where
  "server = [''localhost:5001'', ''localhost:5002'', ''localhost:5003'']"

definition chooseBackend_v0 :: "panic + string" where
  "chooseBackend_v0 =
     (if 0 < length server then Inr (server ! 0) else Inl (IndexOutOfRange 0 (length server)))"

text \<open>
  \<^verbatim>\<open>proxy\<close> of the earlier variant dials with \<^verbatim>\<open>net.Dial\<close>, returns the error
  of a failed dial without closing anything, and otherwise starts the two copies
  with \<^verbatim>\<open>go\<close> and returns nil at once. The client is \<open>None\<close> when the loop
  passes on the nil connection of a failed accept.
\<close>

record relay_v0 =
  v0_backend :: string
  v0_client :: "conn option"
  v0_pc :: relay_pc
  v0_client_open :: bool
  v0_backend_open :: bool
  v0_copies :: nat
  v0_calls :: "net_call list"

definition proxy_init_v0 :: "string \<Rightarrow> conn option \<Rightarrow> relay_v0" where
  "proxy_init_v0 backend c =
     \<lparr>v0_backend = backend, v0_client = c, v0_pc = AtDial,
      v0_client_open = (c \<noteq> None), v0_backend_open = False, v0_copies = 0, v0_calls = []\<rparr>"

definition proxy_dialled_v0 :: "net_error + conn \<Rightarrow> relay_v0 \<Rightarrow> relay_v0" where
  "proxy_dialled_v0 res r =
     (if v0_pc r \<noteq> AtDial then r
      else (let r1 = r\<lparr>v0_calls := v0_calls r @ [Dial ''tcp'' (v0_backend r)]\<rparr>
            in case res of
                 Inl err \<Rightarrow> r1\<lparr>v0_pc := Returned (Some (FailedToConnect (v0_backend r) err))\<rparr>
               | Inr b \<Rightarrow> r1\<lparr>v0_pc := Returned None, v0_backend_open := True, v0_copies := 2\<rparr>))"

text \<open>
  One turn of the earlier loop on the result of \<^verbatim>\<open>Accept\<close>: an error is logged,
  and with or without one a backend is chosen and the goroutine started. The result
  is the lines logged and the relay started (\<open>Inl\<close> a panic).
\<close>

definition main_body_v0 :: "net_error + conn \<Rightarrow> panic + (out_line list \<times> relay_v0)" where
  "main_body_v0 res =
     (let out = (case res of Inl err \<Rightarrow> [FailedToAccept err] | Inr c \<Rightarrow> []);
          c = (case res of Inl err \<Rightarrow> None | Inr c \<Rightarrow> Some c)
      in case chooseBackend_v0 of
           Inl p \<Rightarrow> Inl p
         | Inr backend \<Rightarrow> Inr (out, proxy_init_v0 backend c))"

section \<open>Helper lemmas\<close>

subsection \<open>Backend selection\<close>

lemma seed_mod_in_range: "0 < n \<Longrightarrow> intn_in_range seed_mod n"
  by (simp add: intn_in_range_def seed_mod_def)

lemma chooseBackend_empty: "chooseBackend intn now [] = Inl IntnInvalidArgument"
  by (simp add: chooseBackend_def)

lemma chooseBackend_in_range:
  "servers \<noteq> [] \<Longrightarrow> intn now (length servers) < length servers \<Longrightarrow>
   chooseBackend intn now servers = Inr (servers ! intn now (length servers))"
  by (simp add: chooseBackend_def Let_def)

subsection \<open>The relay keeps its invariant\<close>

lemma proxy_init_inv: "relay_inv (proxy_init backend c)"
  by (simp add: relay_inv_def proxy_init_def)

lemma proxy_step_inv: "relay_inv r \<Longrightarrow> relay_inv (proxy_step e r)"
  by (cases e; cases "r_pc r")
     (auto simp: relay_inv_def running_def copy_done_def proxy_finish_def Let_def
           split: sum.splits copy_dir.splits option.splits if_splits)

lemma proxy_step_returned: "is_returned r \<Longrightarrow> relay_inv r \<Longrightarrow> proxy_step e r = r"
  by (cases e)
     (auto simp: is_returned_def relay_inv_def running_def
           split: relay_pc.splits option.splits copy_dir.splits)

lemma proxy_run_returned: "is_returned r \<Longrightarrow> relay_inv r \<Longrightarrow> proxy_run es r = r"
  by (induction es) (simp_all add: proxy_step_returned)

lemma proxy_step_c2b:
  "relay_inv r \<Longrightarrow> r_pc r \<noteq> AtDial \<Longrightarrow>
   c2b_running (proxy_step e r) = (c2b_running r \<and> \<not> returns ClientToBackend e)"
  by (cases e; cases "r_pc r")
     (auto simp: relay_inv_def running_def copy_done_def proxy_finish_def Let_def
           split: sum.splits copy_dir.splits option.splits if_splits)

lemma proxy_step_b2c:
  "relay_inv r \<Longrightarrow> r_pc r \<noteq> AtDial \<Longrightarrow>
   b2c_running (proxy_step e r) = (b2c_running r \<and> \<not> returns BackendToClient e)"
  by (cases e; cases "r_pc r")
     (auto simp: relay_inv_def running_def copy_done_def proxy_finish_def Let_def
           split: sum.splits copy_dir.splits option.splits if_splits)

lemma proxy_step_no_error:
  "relay_inv r \<Longrightarrow> r_pc r = AtWait \<or> r_pc r = Returned None \<Longrightarrow>
   r_pc (proxy_step e r) = AtWait \<or> r_pc (proxy_step e r) = Returned None"
  by (cases e)
     (auto simp: relay_inv_def running_def copy_done_def proxy_finish_def Let_def
           split: sum.splits copy_dir.splits option.splits if_splits)

lemma proxy_run_after_dial:
  "relay_inv r \<Longrightarrow> r_pc r = AtWait \<or> r_pc r = Returned None \<Longrightarrow>
   relay_inv (proxy_run es r)
   \<and> (r_pc (proxy_run es r) = AtWait \<or> r_pc (proxy_run es r) = Returned None)
   \<and> c2b_running (proxy_run es r) = (c2b_running r \<and> \<not> copy_returned ClientToBackend es)
   \<and> b2c_running (proxy_run es r) = (b2c_running r \<and> \<not> copy_returned BackendToClient es)"
proof (induction es arbitrary: r)
  case Nil
  then show ?case by simp
next
  case (Cons e es)
  let ?r = "proxy_step e r"
  have inv: "relay_inv ?r" using Cons.prems(1) by (rule proxy_step_inv)
  have pc: "r_pc ?r = AtWait \<or> r_pc ?r = Returned None"
    using Cons.prems by (rule proxy_step_no_error)
  have nd: "r_pc r \<noteq> AtDial" using Cons.prems(2) by auto
  have c: "c2b_running ?r = (c2b_running r \<and> \<not> returns ClientToBackend e)"
    using Cons.prems(1) nd by (rule proxy_step_c2b)
  have b: "b2c_running ?r = (b2c_running r \<and> \<not> returns BackendToClient e)"
    using Cons.prems(1) nd by (rule proxy_step_b2c)
  from Cons.IH [OF inv pc] c b show ?case by auto
qed

lemma proxy_dial_ok_facts:
  "relay_inv (proxy_step (DialReturned (Inr b)) (proxy_init backend c))"
  "r_pc (proxy_step (DialReturned (Inr b)) (proxy_init backend c)) = AtWait"
  "c2b_running (proxy_step (DialReturned (Inr b)) (proxy_init backend c))"
  "b2c_running (proxy_step (DialReturned (Inr b)) (proxy_init backend c))"
  by (simp_all add: proxy_init_def relay_inv_def)

subsection \<open>The calls of a relay\<close>

lemma proxy_init_calls: "r_calls (proxy_init backend c) = expected_calls (proxy_init backend c)"
  by (simp add: proxy_init_def expected_calls_def)

lemma proxy_step_calls:
  "relay_inv r \<Longrightarrow> r_calls r = expected_calls r \<Longrightarrow>
   r_calls (proxy_step e r) = expected_calls (proxy_step e r)"
  by (cases e; cases "r_pc r")
     (auto simp: relay_inv_def expected_calls_def running_def copy_done_def proxy_finish_def
           Let_def Second_def
           split: sum.splits copy_dir.splits option.splits if_splits)

lemma expected_calls_dial:
  "DialTimeout nw addr t \<in> set (expected_calls r) \<Longrightarrow>
     nw = ''tcp'' \<and> addr = r_backend r \<and> t = 5000000000"
  by (auto simp: expected_calls_def split: relay_pc.splits option.splits)

lemma expected_calls_no_plain_dial: "Dial nw addr \<notin> set (expected_calls r)"
  by (auto simp: expected_calls_def split: relay_pc.splits option.splits)

lemma expected_calls_dialled:
  "r_pc r \<noteq> AtDial \<Longrightarrow>
     DialTimeout ''tcp'' (r_backend r) 5000000000 \<in> set (expected_calls r)"
  by (auto simp: expected_calls_def split: relay_pc.splits option.splits)

lemma drain_step_relays [simp]: "relays (drain_step s) = relays s"
  by (simp add: drain_step_def split: main_pc.splits)

lemma leave_main_relays [simp]: "relays (leave_main p s) = relays s"
  by (simp add: leave_main_def)

lemma select_step_relays [simp]: "relays (select_step s) = relays s"
  by (simp add: select_step_def split: list.splits)

lemma goroutine_done_relays [simp]: "relays (goroutine_done res s) = relays s"
  by (simp add: goroutine_done_def Let_def split: option.splits)

lemma main_step_relays:
  assumes "\<forall>r\<in>set (relays s). relay_inv r \<and> r_calls r = expected_calls r"
  shows "\<forall>r\<in>set (relays (main_step intn config ev s)).
           relay_inv r \<and> r_calls r = expected_calls r"
proof (cases ev)
  case (RelayEvent i e)
  show ?thesis
  proof (cases "alive s \<and> i < length (relays s)")
    case True
    then have mem: "relays s ! i \<in> set (relays s)" by simp
    with assms have a: "relay_inv (relays s ! i)"
      and b: "r_calls (relays s ! i) = expected_calls (relays s ! i)" by auto
    have new: "relay_inv (proxy_step e (relays s ! i))
        \<and> r_calls (proxy_step e (relays s ! i)) = expected_calls (proxy_step e (relays s ! i))"
      using proxy_step_inv [OF a] proxy_step_calls [OF a b] by simp
    have rel: "relays (main_step intn config ev s) = (relays s)[i := proxy_step e (relays s ! i)]"
      using True RelayEvent
      by (simp add: Let_def split: relay_pc.splits)
    show ?thesis
      unfolding rel using assms new by (auto dest!: set_update_subset_insert [THEN subsetD])
  next
    case False
    then show ?thesis using assms RelayEvent by auto
  qed
next
  case (Accepted c now)
  then show ?thesis
    using assms
    by (auto simp: proxy_init_inv proxy_init_calls split: sum.splits)
next
  case (AcceptFailed err)
  then show ?thesis using assms by auto
next
  case (SignalDelivered sg)
  then show ?thesis using assms by simp
next
  case TimerFired
  then show ?thesis using assms by simp
qed

lemma main_run_relays:
  "\<forall>r\<in>set (relays s). relay_inv r \<and> r_calls r = expected_calls r \<Longrightarrow>
   \<forall>r\<in>set (relays (main_run intn config evs s)). relay_inv r \<and> r_calls r = expected_calls r"
proof (induction evs arbitrary: s)
  case Nil
  then show ?case by simp
next
  case (Cons e evs)
  from main_step_relays [OF Cons.prems] have
    "\<forall>r\<in>set (relays (main_step intn config e s)). relay_inv r \<and> r_calls r = expected_calls r" .
  from Cons.IH [OF this] show ?case by simp
qed

subsection \<open>The listener loop has no exit\<close>

lemma main_step_in_loop:
  assumes "Server config \<noteq> []" and "intn_in_range intn (length (Server config))"
    and "in_loop s"
  shows "in_loop (main_step intn config ev s)"
proof (cases ev)
  case (Accepted c now)
  from assms(2) have "intn now (length (Server config)) < length (Server config)"
    by (simp add: intn_in_range_def)
  with assms(1) have "chooseBackend intn now (Server config)
      = Inr (Server config ! intn now (length (Server config)))"
    by (rule chooseBackend_in_range)
  with Accepted assms(3) show ?thesis by (simp add: in_loop_def)
next
  case (AcceptFailed err)
  with assms(3) show ?thesis by (simp add: in_loop_def)
next
  case (SignalDelivered sg)
  with assms(3) show ?thesis by (simp add: in_loop_def select_step_def)
next
  case TimerFired
  with assms(3) show ?thesis by (simp add: in_loop_def select_step_def)
next
  case (RelayEvent i e)
  with assms(3) show ?thesis
    by (simp add: in_loop_def drain_step_def goroutine_done_def Let_def
             split: relay_pc.splits option.splits)
qed

lemma main_run_in_loop:
  assumes "Server config \<noteq> []" and "intn_in_range intn (length (Server config))"
  shows "in_loop s \<Longrightarrow> in_loop (main_run intn config evs s)"
  by (induction evs arbitrary: s) (simp_all add: main_step_in_loop [OF assms])


lemma main_init_in_loop: "in_loop (main_init config)"
  by (simp add: in_loop_def main_init_def)

subsection \<open>The listener is open as long as the process lives\<close>








subsection \<open>The concrete generator and the dial timeout\<close>

lemma seed_mod_reaches_all: "n \<le> 2 ^ 64 \<Longrightarrow> intn_reaches_all seed_mod n"
  unfolding intn_reaches_all_def seed_mod_def
proof (intro allI impI)
  fix i assume "n \<le> 2 ^ 64" "i < n"
  then have "i < 2 ^ LENGTH(64)" by simp
  then have "unat (of_nat i :: 64 word) = i" by (simp add: unat_of_nat)
  with \<open>i < n\<close> have "unat (of_nat i :: 64 word) mod n = i" by simp
  then show "\<exists>seed :: 64 word. unat seed mod n = i" ..
qed

lemma Second_times_5: "Second * 5 = 5000000000"
  by (simp add: Second_def)

subsection \<open>What the earlier variant does\<close>

text \<open>
  The earlier variant always picks the first server, dials without a timeout, closes
  no connection (neither when the dial fails nor when \<^verbatim>\<open>proxy\<close> returns), and
  starts a relay even after a failed accept.
\<close>

lemma chooseBackend_v0_static: "chooseBackend_v0 = Inr ''localhost:5001''"
  by (simp add: chooseBackend_v0_def server_def)

lemma proxy_v0_dial_untimed:
  "v0_calls (proxy_dialled_v0 res (proxy_init_v0 backend c)) = [Dial ''tcp'' backend]"
  by (simp add: proxy_dialled_v0_def proxy_init_v0_def Let_def split: sum.splits)

lemma proxy_v0_dial_failure_leaves_client_open:
  "v0_client_open (proxy_dialled_v0 (Inl err) (proxy_init_v0 backend (Some c)))
   \<and> v0_pc (proxy_dialled_v0 (Inl err) (proxy_init_v0 backend (Some c)))
       = Returned (Some (FailedToConnect backend err))"
  by (simp add: proxy_dialled_v0_def proxy_init_v0_def Let_def)

lemma proxy_v0_returns_with_both_open:
  "v0_pc (proxy_dialled_v0 (Inr b) (proxy_init_v0 backend (Some c))) = Returned None
   \<and> v0_client_open (proxy_dialled_v0 (Inr b) (proxy_init_v0 backend (Some c)))
   \<and> v0_backend_open (proxy_dialled_v0 (Inr b) (proxy_init_v0 backend (Some c)))"
  by (simp add: proxy_dialled_v0_def proxy_init_v0_def Let_def)

lemma main_body_v0_accept_error_starts_relay:
  "main_body_v0 (Inl err) = Inr ([FailedToAccept err], proxy_init_v0 ''localhost:5001'' None)"
  by (simp add: main_body_v0_def chooseBackend_v0_static)

section \<open>Claims\<close>

text \<open>
  C10. When the file cannot be opened, whatever the error of \<^verbatim>\<open>os.Open\<close>,
  \<^verbatim>\<open>loadConfig\<close> returns no error and the default configuration: listen address
  localhost:8080, the three default servers, and a timeout of 60 seconds.
\<close>

theorem loadConfig_unopenable_defaults:
  assumes "os_open filename = Inl err"
  shows "loadConfig os_open decode filename =
           Inr \<lparr>ListenAddr = ''localhost:8080'',
                Server = [''localhost:5001'', ''localhost:5002'', ''localhost:5003''],
                ConnectionTimeout = 60\<rparr>"
  using assms
  by (simp add: loadConfig_def DefaultListenAddr_def DefaultServers_def
      DefaultConnectionTimeout_def)

theorem loadConfig_unopenable_defaults_witness:
  "loadConfig (\<lambda>f. (Inl ''no such file'' :: string + unit)) (\<lambda>f c. (Inr c :: unit + Config))
       ''config.json'' =
     Inr \<lparr>ListenAddr = ''localhost:8080'',
          Server = [''localhost:5001'', ''localhost:5002'', ''localhost:5003''],
          ConnectionTimeout = 60\<rparr>"
  using loadConfig_unopenable_defaults
    [of "\<lambda>f. (Inl ''no such file'' :: string + unit)" "''config.json''" "''no such file''"
        "\<lambda>f c. (Inr c :: unit + Config)"]
  by simp

text \<open>
  C1. The claim is that a termination signal or the idle timeout takes the process
  from accepting through draining to its exit. In the code the \<^verbatim>\<open>select\<close> that
  would do so stands after a \<^verbatim>\<open>for\<close> without exit. For a configuration with
  at least one server and a generator within the contract of \<^verbatim>\<open>rand.Intn\<close> (so
  that \<^verbatim>\<open>chooseBackend\<close> does not panic), whatever the environment delivers,
  signals and timer ticks included, the main goroutine is at \<^verbatim>\<open>Accept\<close> inside
  the loop and the listener is open: the process never reaches the \<^verbatim>\<open>select\<close>,
  the drain or its exit.
\<close>

theorem main_never_shuts_down:
  assumes "Server config \<noteq> []" and "intn_in_range intn (length (Server config))"
  shows "m_pc (main_run intn config evs (main_init config)) = AtAccept
       \<and> listener_open (main_run intn config evs (main_init config))"
proof -
  have "in_loop (main_run intn config evs (main_init config))"
    using assms main_init_in_loop by (rule main_run_in_loop)
  then show ?thesis by (simp add: in_loop_def)
qed

theorem main_never_shuts_down_witness:
  "Server defaultConfig \<noteq> [] \<and> intn_in_range seed_mod (length (Server defaultConfig))
   \<and> m_pc (main_run seed_mod defaultConfig
          [Accepted 1 0, RelayEvent 0 (DialReturned (Inr 2)), SignalDelivered Interrupt,
           TimerFired, SignalDelivered SIGTERM] (main_init defaultConfig)) = AtAccept
   \<and> listener_open (main_run seed_mod defaultConfig
          [Accepted 1 0, RelayEvent 0 (DialReturned (Inr 2)), SignalDelivered Interrupt,
           TimerFired, SignalDelivered SIGTERM] (main_init defaultConfig))
   \<and> sig_chan (main_run seed_mod defaultConfig
          [Accepted 1 0, RelayEvent 0 (DialReturned (Inr 2)), SignalDelivered Interrupt,
           TimerFired, SignalDelivered SIGTERM] (main_init defaultConfig)) = [Interrupt]
   \<and> timer_chan (main_run seed_mod defaultConfig
          [Accepted 1 0, RelayEvent 0 (DialReturned (Inr 2)), SignalDelivered Interrupt,
           TimerFired, SignalDelivered SIGTERM] (main_init defaultConfig))
   \<and> m_wg (main_run seed_mod defaultConfig
          [Accepted 1 0, RelayEvent 0 (DialReturned (Inr 2)), SignalDelivered Interrupt,
           TimerFired, SignalDelivered SIGTERM] (main_init defaultConfig)) = 1"
proof -
  have ne: "Server defaultConfig \<noteq> []"
    by (simp add: defaultConfig_def DefaultServers_def)
  have rg: "intn_in_range seed_mod (length (Server defaultConfig))"
    by (rule seed_mod_in_range) (simp add: defaultConfig_def DefaultServers_def)
  from main_never_shuts_down [OF ne rg,
      of "[Accepted 1 0, RelayEvent 0 (DialReturned (Inr 2)), SignalDelivered Interrupt,
           TimerFired, SignalDelivered SIGTERM]"] ne rg
  show ?thesis
    by (simp add: main_init_def defaultConfig_def DefaultServers_def chooseBackend_def
        seed_mod_def alive_def select_step_def proxy_init_def is_returned_def Let_def)
qed

text \<open>
  C2, as stated, fails. The dial has succeeded and the copy from the client to the
  backend has returned: \<^verbatim>\<open>proxy\<close> is still in \<^verbatim>\<open>wg.Wait()\<close>, both
  connections are open, and the only call made so far is the dial.
\<close>

theorem proxy_one_copy_done_counterexample:
  "client_open (proxy_run [DialReturned (Inr 2), CopyReturned ClientToBackend None]
                  (proxy_init ''localhost:5001'' 1))
   \<and> backend_open (proxy_run [DialReturned (Inr 2), CopyReturned ClientToBackend None]
                  (proxy_init ''localhost:5001'' 1))
   \<and> r_pc (proxy_run [DialReturned (Inr 2), CopyReturned ClientToBackend None]
                  (proxy_init ''localhost:5001'' 1)) = AtWait
   \<and> r_calls (proxy_run [DialReturned (Inr 2), CopyReturned ClientToBackend None]
                  (proxy_init ''localhost:5001'' 1))
       = [DialTimeout ''tcp'' ''localhost:5001'' 5000000000]"
  by (simp add: proxy_init_def running_def copy_done_def Let_def Second_def)

text \<open>
  C2, as amended. After a successful dial \<^verbatim>\<open>proxy\<close> closes nothing while only one
  copy task has returned: it stays in \<^verbatim>\<open>wg.Wait()\<close> with both connections open.
  Once both copy tasks have returned, in either order, it has returned nil and both
  connections are closed.
\<close>

theorem proxy_closes_after_both_copies:
  "(if copy_returned ClientToBackend es \<and> copy_returned BackendToClient es
    then r_pc (proxy_run (DialReturned (Inr b) # es) (proxy_init backend c)) = Returned None
       \<and> \<not> client_open (proxy_run (DialReturned (Inr b) # es) (proxy_init backend c))
       \<and> \<not> backend_open (proxy_run (DialReturned (Inr b) # es) (proxy_init backend c))
    else r_pc (proxy_run (DialReturned (Inr b) # es) (proxy_init backend c)) = AtWait
       \<and> client_open (proxy_run (DialReturned (Inr b) # es) (proxy_init backend c))
       \<and> backend_open (proxy_run (DialReturned (Inr b) # es) (proxy_init backend c)))"
proof -
  define r0 where "r0 = proxy_step (DialReturned (Inr b)) (proxy_init backend c)"
  define r where "r = proxy_run es r0"
  have inv0: "relay_inv r0" and pc0: "r_pc r0 = AtWait" and c0: "c2b_running r0"
    and b0: "b2c_running r0"
    unfolding r0_def by (rule proxy_dial_ok_facts)+
  from pc0 have pc0': "r_pc r0 = AtWait \<or> r_pc r0 = Returned None" by simp
  note run = proxy_run_after_dial [OF inv0 pc0', of es, folded r_def]
  from run have inv: "relay_inv r" by blast
  from run have pc: "r_pc r = AtWait \<or> r_pc r = Returned None" by blast
  from run c0 have c: "c2b_running r = (\<not> copy_returned ClientToBackend es)" by blast
  from run b0 have d: "b2c_running r = (\<not> copy_returned BackendToClient es)" by blast
  have eq: "proxy_run (DialReturned (Inr b) # es) (proxy_init backend c) = r"
    unfolding r_def r0_def by (simp only: proxy_run.simps)
  from inv pc c d have
    "(if copy_returned ClientToBackend es \<and> copy_returned BackendToClient es
      then r_pc r = Returned None \<and> \<not> client_open r \<and> \<not> backend_open r
      else r_pc r = AtWait \<and> client_open r \<and> backend_open r)"
    by (auto simp: relay_inv_def)
  then show ?thesis unfolding eq .
qed

theorem proxy_closes_after_both_copies_witness:
  "r_pc (proxy_run [DialReturned (Inr 2), CopyReturned BackendToClient (Some ErrClosed),
                    Forwarded ClientToBackend 4, CopyReturned ClientToBackend None]
           (proxy_init ''localhost:5001'' 1)) = Returned None
   \<and> \<not> client_open (proxy_run [DialReturned (Inr 2), CopyReturned BackendToClient (Some ErrClosed),
                    Forwarded ClientToBackend 4, CopyReturned ClientToBackend None]
           (proxy_init ''localhost:5001'' 1))
   \<and> \<not> backend_open (proxy_run [DialReturned (Inr 2), CopyReturned BackendToClient (Some ErrClosed),
                    Forwarded ClientToBackend 4, CopyReturned ClientToBackend None]
           (proxy_init ''localhost:5001'' 1))
   \<and> r_pc (proxy_run [DialReturned (Inr 2), CopyReturned BackendToClient (Some ErrClosed),
                    Forwarded ClientToBackend 4]
           (proxy_init ''localhost:5001'' 1)) = AtWait
   \<and> client_open (proxy_run [DialReturned (Inr 2), CopyReturned BackendToClient (Some ErrClosed),
                    Forwarded ClientToBackend 4]
           (proxy_init ''localhost:5001'' 1))"
  using proxy_closes_after_both_copies
    [of "[CopyReturned BackendToClient (Some ErrClosed), Forwarded ClientToBackend 4,
          CopyReturned ClientToBackend None]" 2 "''localhost:5001''" 1]
    proxy_closes_after_both_copies
    [of "[CopyReturned BackendToClient (Some ErrClosed), Forwarded ClientToBackend 4]"
        2 "''localhost:5001''" 1]
  by simp

text \<open>
  C3. When the dial fails, with whatever error and whatever the environment delivers
  afterwards, \<^verbatim>\<open>proxy\<close> has returned the error that wraps the dial error, the
  client connection has been closed by the deferred \<^verbatim>\<open>c.Close()\<close>, and no byte
  has been forwarded in either direction.
\<close>

theorem proxy_dial_failure_closes_client:
  "r_pc (proxy_run (DialReturned (Inl err) # es) (proxy_init backend c))
       = Returned (Some (FailedToConnect backend err))
   \<and> \<not> client_open (proxy_run (DialReturned (Inl err) # es) (proxy_init backend c))
   \<and> CloseConn c \<in> set (r_calls (proxy_run (DialReturned (Inl err) # es) (proxy_init backend c)))
   \<and> c2b_bytes (proxy_run (DialReturned (Inl err) # es) (proxy_init backend c)) = 0
   \<and> b2c_bytes (proxy_run (DialReturned (Inl err) # es) (proxy_init backend c)) = 0"
proof -
  let ?r = "proxy_step (DialReturned (Inl err)) (proxy_init backend c)"
  have inv: "relay_inv ?r" by (rule proxy_step_inv [OF proxy_init_inv])
  have ret: "is_returned ?r" by (simp add: is_returned_def proxy_init_def)
  have "proxy_run (DialReturned (Inl err) # es) (proxy_init backend c) = ?r"
    using proxy_run_returned [OF ret inv] by simp
  then show ?thesis by (simp add: proxy_init_def)
qed

theorem proxy_dial_failure_closes_client_witness:
  "r_pc (proxy_run [DialReturned (Inl ErrRefused), Forwarded ClientToBackend 10,
                    CopyReturned ClientToBackend None] (proxy_init ''localhost:5001'' 1))
     = Returned (Some (FailedToConnect ''localhost:5001'' ErrRefused))
   \<and> r_calls (proxy_run [DialReturned (Inl ErrRefused), Forwarded ClientToBackend 10,
                    CopyReturned ClientToBackend None] (proxy_init ''localhost:5001'' 1))
     = [DialTimeout ''tcp'' ''localhost:5001'' 5000000000, CloseConn 1]
   \<and> c2b_bytes (proxy_run [DialReturned (Inl ErrRefused), Forwarded ClientToBackend 10,
                    CopyReturned ClientToBackend None] (proxy_init ''localhost:5001'' 1)) = 0"
  using proxy_dial_failure_closes_client
    [of ErrRefused "[Forwarded ClientToBackend 10, CopyReturned ClientToBackend None]"
        "''localhost:5001''" 1]
  by (simp add: proxy_init_def running_def Second_def)

text \<open>
  C6. For every non-empty list of servers, and a generator that keeps the contract of
  \<^verbatim>\<open>rand.Intn\<close> at the list's length, \<^verbatim>\<open>chooseBackend\<close> returns, without a
  panic, an element of the list.
\<close>

theorem chooseBackend_member:
  assumes "servers \<noteq> []" and "intn_in_range intn (length servers)"
  shows "\<exists>b. chooseBackend intn now servers = Inr b \<and> b \<in> set servers"
proof -
  from assms(2) have lt: "intn now (length servers) < length servers"
    by (simp add: intn_in_range_def)
  from assms(1) lt
  have "chooseBackend intn now servers = Inr (servers ! intn now (length servers))"
    by (rule chooseBackend_in_range)
  moreover from lt have "servers ! intn now (length servers) \<in> set servers"
    by (rule nth_mem)
  ultimately show ?thesis by blast
qed

theorem chooseBackend_member_witness:
  "DefaultServers \<noteq> [] \<and> intn_in_range seed_mod (length DefaultServers)
   \<and> chooseBackend seed_mod 7 DefaultServers = Inr ''localhost:5002''
   \<and> ''localhost:5002'' \<in> set DefaultServers"
proof -
  have ne: "DefaultServers \<noteq> []" by (simp add: DefaultServers_def)
  have rg: "intn_in_range seed_mod (length DefaultServers)"
    by (rule seed_mod_in_range) (simp add: DefaultServers_def)
  from chooseBackend_member [OF ne rg, of 7] ne rg show ?thesis
    by (simp add: chooseBackend_def seed_mod_def DefaultServers_def)
qed

text \<open>
  C4. \<^verbatim>\<open>chooseBackend\<close> is not static: for a list holding at least two different
  backends, and a generator that draws every index for some seed, two clock readings
  exist on which it returns two different backends, and a clock reading exists on
  which it returns a backend other than the element at index 0.
\<close>

theorem chooseBackend_not_static:
  assumes reach: "intn_reaches_all intn (length servers)"
    and two: "2 \<le> card (set servers)"
  shows "(\<exists>t1 t2 b1 b2. chooseBackend intn t1 servers = Inr b1
            \<and> chooseBackend intn t2 servers = Inr b2 \<and> b1 \<noteq> b2)
       \<and> (\<exists>t b. chooseBackend intn t servers = Inr b \<and> b \<noteq> servers ! 0)"
proof -
  from two have ne: "servers \<noteq> []" by auto
  then have len: "0 < length servers" by simp
  have "\<exists>y\<in>set servers. y \<noteq> servers ! 0"
  proof (rule ccontr)
    assume "\<not> (\<exists>y\<in>set servers. y \<noteq> servers ! 0)"
    then have "set servers \<subseteq> {servers ! 0}" by auto
    then have "card (set servers) \<le> card {servers ! 0}" by (intro card_mono) simp_all
    with two show False by simp
  qed
  then obtain y where y: "y \<in> set servers" "y \<noteq> servers ! 0" by blast
  then obtain j where j: "j < length servers" "servers ! j = y"
    by (auto simp: in_set_conv_nth)
  from reach len obtain t0 where t0: "intn t0 (length servers) = 0"
    unfolding intn_reaches_all_def by blast
  from reach j(1) obtain tj where tj: "intn tj (length servers) = j"
    unfolding intn_reaches_all_def by blast
  have c0: "chooseBackend intn t0 servers = Inr (servers ! 0)"
    using chooseBackend_in_range [OF ne, of intn t0] t0 len by simp
  have cj: "chooseBackend intn tj servers = Inr y"
    using chooseBackend_in_range [OF ne, of intn tj] tj j by simp
  from c0 cj y(2) have "\<exists>t1 t2 b1 b2. chooseBackend intn t1 servers = Inr b1
            \<and> chooseBackend intn t2 servers = Inr b2 \<and> b1 \<noteq> b2"
    by metis
  moreover from cj y(2) have "\<exists>t b. chooseBackend intn t servers = Inr b \<and> b \<noteq> servers ! 0"
    by blast
  ultimately show ?thesis by blast
qed

theorem chooseBackend_not_static_witness:
  "intn_reaches_all seed_mod (length DefaultServers) \<and> 2 \<le> card (set DefaultServers)
   \<and> (\<exists>t1 t2 b1 b2. chooseBackend seed_mod t1 DefaultServers = Inr b1
         \<and> chooseBackend seed_mod t2 DefaultServers = Inr b2 \<and> b1 \<noteq> b2)
   \<and> (\<exists>t b. chooseBackend seed_mod t DefaultServers = Inr b \<and> b \<noteq> DefaultServers ! 0)
   \<and> chooseBackend seed_mod 0 DefaultServers = Inr ''localhost:5001''
   \<and> chooseBackend seed_mod 1 DefaultServers = Inr ''localhost:5002''"
proof -
  have r: "intn_reaches_all seed_mod (length DefaultServers)"
    by (rule seed_mod_reaches_all) (simp add: DefaultServers_def)
  have c: "2 \<le> card (set DefaultServers)" by (simp add: DefaultServers_def)
  have e0: "chooseBackend seed_mod 0 DefaultServers = Inr ''localhost:5001''"
    by (simp add: chooseBackend_def seed_mod_def DefaultServers_def)
  have e1: "chooseBackend seed_mod 1 DefaultServers = Inr ''localhost:5002''"
    by (simp add: chooseBackend_def seed_mod_def DefaultServers_def)
  from chooseBackend_not_static [OF r c] r c e0 e1 show ?thesis by blast
qed

text \<open>
  C8. \<^verbatim>\<open>chooseBackend\<close> has no guard: on the empty list it panics in
  \<^verbatim>\<open>rand.Intn\<close>, on a non-empty list (and a generator within its contract) it
  returns. \<^verbatim>\<open>loadConfig\<close> returns the struct as the decoder leaves it, with no
  check of the server list, and for a configuration whose server list is empty the
  first accepted connection ends the process in that panic.
\<close>

theorem chooseBackend_unguarded:
  "chooseBackend intn now [] = Inl IntnInvalidArgument
   \<and> (servers \<noteq> [] \<and> intn_in_range intn (length servers)
        \<longrightarrow> (\<exists>b. chooseBackend intn now servers = Inr b))
   \<and> (os_open filename = Inr file \<and> decode file defaultConfig = Inr config
        \<longrightarrow> loadConfig os_open decode filename = Inr config)
   \<and> (Server config = []
        \<longrightarrow> m_pc (main_step intn config (Accepted c now) (main_init config))
              = Panicked IntnInvalidArgument)"
proof (intro conjI impI)
  show "chooseBackend intn now [] = Inl IntnInvalidArgument" by (rule chooseBackend_empty)
next
  assume a: "servers \<noteq> [] \<and> intn_in_range intn (length servers)"
  then have "intn now (length servers) < length servers" by (simp add: intn_in_range_def)
  with a chooseBackend_in_range [of servers intn now]
  show "\<exists>b. chooseBackend intn now servers = Inr b" by blast
next
  assume "os_open filename = Inr file \<and> decode file defaultConfig = Inr config"
  then show "loadConfig os_open decode filename = Inr config"
    by (simp add: loadConfig_def defaultConfig_def)
next
  assume "Server config = []"
  then show "m_pc (main_step intn config (Accepted c now) (main_init config))
               = Panicked IntnInvalidArgument"
    by (simp add: main_init_def chooseBackend_empty leave_main_def drain_step_def)
qed

theorem chooseBackend_unguarded_witness:
  "loadConfig (\<lambda>name. (Inr [] :: unit + string list))
        (\<lambda>file config. (Inr (config\<lparr>Server := file\<rparr>) :: unit + Config)) ''config.json''
      = Inr (defaultConfig\<lparr>Server := []\<rparr>)
   \<and> chooseBackend seed_mod 7 (Server (defaultConfig\<lparr>Server := []\<rparr>)) = Inl IntnInvalidArgument
   \<and> m_pc (main_step seed_mod (defaultConfig\<lparr>Server := []\<rparr>) (Accepted 1 7)
             (main_init (defaultConfig\<lparr>Server := []\<rparr>))) = Panicked IntnInvalidArgument
   \<and> (\<exists>b. chooseBackend seed_mod 7 DefaultServers = Inr b)"
proof -
  have rg: "intn_in_range seed_mod (length DefaultServers)"
    by (rule seed_mod_in_range) (simp add: DefaultServers_def)
  have ne: "DefaultServers \<noteq> []" by (simp add: DefaultServers_def)
  from chooseBackend_unguarded
    [of seed_mod 7 DefaultServers "\<lambda>name. (Inr [] :: unit + string list)" "''config.json''" "[]"
        "\<lambda>file config. (Inr (config\<lparr>Server := file\<rparr>) :: unit + Config)"
        "defaultConfig\<lparr>Server := []\<rparr>" 1] rg ne
  show ?thesis by simp
qed



text \<open>
  C7. In every run of the listener loop, under every configuration (whatever its
  \<^verbatim>\<open>ConnectionTimeout\<close>), every dial a relay has made is a
  \<^verbatim>\<open>net.DialTimeout\<close> on tcp to the relay's backend with a timeout of
  \<^verbatim>\<open>time.Second*5\<close>, that is 5000000000 nanoseconds; no relay dials without a
  timeout, and every relay past its dial has made that call.
\<close>

theorem dial_timeout_fixed:
  assumes "r \<in> set (relays (main_run intn config evs (main_init config)))"
  shows "(\<forall>nw addr t. DialTimeout nw addr t \<in> set (r_calls r)
            \<longrightarrow> nw = ''tcp'' \<and> addr = r_backend r \<and> t = Second * 5 \<and> t = 5000000000)
       \<and> (\<forall>nw addr. Dial nw addr \<notin> set (r_calls r))
       \<and> (r_pc r \<noteq> AtDial \<longrightarrow> DialTimeout ''tcp'' (r_backend r) (Second * 5) \<in> set (r_calls r))"
proof -
  have "\<forall>r\<in>set (relays (main_init config)). relay_inv r \<and> r_calls r = expected_calls r"
    by (simp add: main_init_def)
  then have "\<forall>r\<in>set (relays (main_run intn config evs (main_init config))).
               relay_inv r \<and> r_calls r = expected_calls r"
    by (rule main_run_relays)
  with assms have calls: "r_calls r = expected_calls r" by blast
  show ?thesis
    unfolding calls Second_times_5
    using expected_calls_dial [of _ _ _ r] expected_calls_no_plain_dial [of _ _ r]
      expected_calls_dialled [of r]
    by blast
qed

theorem dial_timeout_fixed_witness:
  "relays (main_run seed_mod (defaultConfig\<lparr>ConnectionTimeout := 1\<rparr>)
             [Accepted 1 0, RelayEvent 0 (DialReturned (Inl ErrTimeout))]
             (main_init (defaultConfig\<lparr>ConnectionTimeout := 1\<rparr>)))
     = [(proxy_init ''localhost:5001'' 1)\<lparr>
          r_pc := Returned (Some (FailedToConnect ''localhost:5001'' ErrTimeout)),
          client_open := False,
          r_calls := [DialTimeout ''tcp'' ''localhost:5001'' 5000000000, CloseConn 1]\<rparr>]
   \<and> timer_duration (main_run seed_mod (defaultConfig\<lparr>ConnectionTimeout := 1\<rparr>)
             [Accepted 1 0, RelayEvent 0 (DialReturned (Inl ErrTimeout))]
             (main_init (defaultConfig\<lparr>ConnectionTimeout := 1\<rparr>))) = 1000000000
   \<and> Second * 5 = 5000000000"
proof -
  have rel: "relays (main_run seed_mod (defaultConfig\<lparr>ConnectionTimeout := 1\<rparr>)
             [Accepted 1 0, RelayEvent 0 (DialReturned (Inl ErrTimeout))]
             (main_init (defaultConfig\<lparr>ConnectionTimeout := 1\<rparr>)))
     = [(proxy_init ''localhost:5001'' 1)\<lparr>
          r_pc := Returned (Some (FailedToConnect ''localhost:5001'' ErrTimeout)),
          client_open := False,
          r_calls := [DialTimeout ''tcp'' ''localhost:5001'' 5000000000, CloseConn 1]\<rparr>]"
    by (simp add: main_init_def defaultConfig_def DefaultServers_def chooseBackend_def
        seed_mod_def alive_def proxy_init_def is_returned_def Let_def Second_def
        goroutine_done_def drain_step_def)
  have tm: "timer_duration (main_run seed_mod (defaultConfig\<lparr>ConnectionTimeout := 1\<rparr>)
             [Accepted 1 0, RelayEvent 0 (DialReturned (Inl ErrTimeout))]
             (main_init (defaultConfig\<lparr>ConnectionTimeout := 1\<rparr>))) = 1000000000"
    by (simp add: main_init_def defaultConfig_def DefaultServers_def chooseBackend_def
        seed_mod_def alive_def proxy_init_def is_returned_def Let_def Second_def
        goroutine_done_def drain_step_def timer_of_def)
  have mem: "(proxy_init ''localhost:5001'' 1)\<lparr>
          r_pc := Returned (Some (FailedToConnect ''localhost:5001'' ErrTimeout)),
          client_open := False,
          r_calls := [DialTimeout ''tcp'' ''localhost:5001'' 5000000000, CloseConn 1]\<rparr>
     \<in> set (relays (main_run seed_mod (defaultConfig\<lparr>ConnectionTimeout := 1\<rparr>)
             [Accepted 1 0, RelayEvent 0 (DialReturned (Inl ErrTimeout))]
             (main_init (defaultConfig\<lparr>ConnectionTimeout := 1\<rparr>))))"
    unfolding rel by simp
  from dial_timeout_fixed [OF mem] rel tm show ?thesis by simp
qed

text \<open>
  C9. After a successful dial \<^verbatim>\<open>proxy\<close> never returns an error, whatever the
  copy tasks do: at any moment it is either still waiting or has returned nil, and it
  has returned nil once both copy tasks have returned. When both copies fail, their
  errors appear only as lines logged by the copy tasks, followed by the closing line.
\<close>

theorem proxy_returns_nil_after_dial:
  "r_pc (proxy_run (DialReturned (Inr b) # es) (proxy_init backend c)) \<noteq> Returned (Some e)
   \<and> (copy_returned ClientToBackend es \<and> copy_returned BackendToClient es
        \<longrightarrow> r_pc (proxy_run (DialReturned (Inr b) # es) (proxy_init backend c)) = Returned None)
   \<and> (d1 \<noteq> d2 \<longrightarrow>
        r_pc (proxy_run [DialReturned (Inr b), CopyReturned d1 (Some e1), CopyReturned d2 (Some e2)]
               (proxy_init backend c)) = Returned None
      \<and> r_out (proxy_run [DialReturned (Inr b), CopyReturned d1 (Some e1), CopyReturned d2 (Some e2)]
               (proxy_init backend c))
          = [FailedToCopy d1 e1, FailedToCopy d2 e2, ConnectionClosed c backend])"
proof -
  define r0 where "r0 = proxy_step (DialReturned (Inr b)) (proxy_init backend c)"
  define r where "r = proxy_run es r0"
  have inv0: "relay_inv r0" and pc0: "r_pc r0 = AtWait" and c0: "c2b_running r0"
    and b0: "b2c_running r0"
    unfolding r0_def by (rule proxy_dial_ok_facts)+
  from pc0 have pc0': "r_pc r0 = AtWait \<or> r_pc r0 = Returned None" by simp
  note run = proxy_run_after_dial [OF inv0 pc0', of es, folded r_def]
  from run have inv: "relay_inv r" by blast
  from run have pc: "r_pc r = AtWait \<or> r_pc r = Returned None" by blast
  from run c0 have c: "c2b_running r = (\<not> copy_returned ClientToBackend es)" by blast
  from run b0 have d: "b2c_running r = (\<not> copy_returned BackendToClient es)" by blast
  have eq: "proxy_run (DialReturned (Inr b) # es) (proxy_init backend c) = r"
    unfolding r_def r0_def by (simp only: proxy_run.simps)
  from pc have one: "r_pc r \<noteq> Returned (Some e)" by auto
  from inv pc c d have two:
    "copy_returned ClientToBackend es \<and> copy_returned BackendToClient es
       \<longrightarrow> r_pc r = Returned None"
    by (auto simp: relay_inv_def)
  have three: "d1 \<noteq> d2 \<longrightarrow>
        r_pc (proxy_run [DialReturned (Inr b), CopyReturned d1 (Some e1), CopyReturned d2 (Some e2)]
               (proxy_init backend c)) = Returned None
      \<and> r_out (proxy_run [DialReturned (Inr b), CopyReturned d1 (Some e1), CopyReturned d2 (Some e2)]
               (proxy_init backend c))
          = [FailedToCopy d1 e1, FailedToCopy d2 e2, ConnectionClosed c backend]"
    by (cases d1; cases d2)
       (simp_all add: proxy_init_def running_def copy_done_def proxy_finish_def Let_def)
  from one two three show ?thesis unfolding eq by blast
qed

theorem proxy_returns_nil_after_dial_witness:
  "copy_returned ClientToBackend
      [CopyReturned BackendToClient (Some ErrClosed), Forwarded ClientToBackend 4,
       CopyReturned ClientToBackend (Some (ErrOther ''broken pipe''))]
   \<and> copy_returned BackendToClient
      [CopyReturned BackendToClient (Some ErrClosed), Forwarded ClientToBackend 4,
       CopyReturned ClientToBackend (Some (ErrOther ''broken pipe''))]
   \<and> r_pc (proxy_run
        [DialReturned (Inr 2), CopyReturned BackendToClient (Some ErrClosed),
         Forwarded ClientToBackend 4,
         CopyReturned ClientToBackend (Some (ErrOther ''broken pipe''))]
        (proxy_init ''localhost:5001'' 1)) = Returned None
   \<and> r_out (proxy_run
        [DialReturned (Inr 2), CopyReturned BackendToClient (Some ErrClosed),
         CopyReturned ClientToBackend (Some ErrTimeout)]
        (proxy_init ''localhost:5001'' 1))
       = [FailedToCopy BackendToClient ErrClosed, FailedToCopy ClientToBackend ErrTimeout,
          ConnectionClosed 1 ''localhost:5001'']"
  using proxy_returns_nil_after_dial
    [of 2 "[CopyReturned BackendToClient (Some ErrClosed), Forwarded ClientToBackend 4,
            CopyReturned ClientToBackend (Some (ErrOther ''broken pipe''))]"
        "''localhost:5001''" 1 "FailedToConnect ''localhost:5001'' ErrRefused"
        BackendToClient ClientToBackend ErrClosed ErrTimeout]
  by simp

end
